theory Spec2Isabelle
  imports Complex_Main
begin

section \<open>Rotations in space: Euler angles, rotation matrices and rotors\<close>

text \<open>
  The tutorial notebook \<^verbatim>\<open>docs/tutorials/euler-angles.ipynb\<close> converts between Euler
  angles, rotors of the three-dimensional geometric algebra and rotation matrices.
  Its cells are embedded here as HOL functions. Python floats are read as real
  numbers, so rounding is not part of the model; what the final division does with a
  zero denominator (numpy gives NaN or an infinity, never an exception) is written out
  with the type \<open>npfloat\<close>.
\<close>

subsection \<open>Multivectors of Cl(3)\<close>

text \<open>
  \<^verbatim>\<open>layout, blades = Cl(3)\<close>: a multivector holds eight coefficients, in the order of
  the blades \<open>1, e1, e2, e3, e12, e13, e23, e123\<close>.
\<close>

datatype 'a mv = MV (sc: 'a) (c1: 'a) (c2: 'a) (c3: 'a) (c12: 'a) (c13: 'a) (c23: 'a) (c123: 'a)

type_synonym multivector = "real mv"

text \<open>
  Modelled from the spec: the basis blades, the addition and the multiplication by a
  scalar of the external geometric-algebra library, coefficient by coefficient; a
  Python number met by an operator is read as the scalar multivector \<open>scalar_mv\<close>.
\<close>

definition scalar_mv :: "real \<Rightarrow> multivector" where
  "scalar_mv x = MV x 0 0 0 0 0 0 0"

definition e1 :: multivector where "e1 = MV 0 1 0 0 0 0 0 0"
definition e2 :: multivector where "e2 = MV 0 0 1 0 0 0 0 0"
definition e3 :: multivector where "e3 = MV 0 0 0 1 0 0 0 0"
definition e12 :: multivector where "e12 = MV 0 0 0 0 1 0 0 0"
definition e13 :: multivector where "e13 = MV 0 0 0 0 0 1 0 0"
definition e23 :: multivector where "e23 = MV 0 0 0 0 0 0 1 0"
definition e123 :: multivector where "e123 = MV 0 0 0 0 0 0 0 1"

definition add :: "multivector \<Rightarrow> multivector \<Rightarrow> multivector" where
  "add a b = MV (sc a + sc b) (c1 a + c1 b) (c2 a + c2 b) (c3 a + c3 b)
                (c12 a + c12 b) (c13 a + c13 b) (c23 a + c23 b) (c123 a + c123 b)"

definition smult :: "real \<Rightarrow> multivector \<Rightarrow> multivector" where
  "smult k a = MV (k * sc a) (k * c1 a) (k * c2 a) (k * c3 a)
                  (k * c12 a) (k * c13 a) (k * c23 a) (k * c123 a)"

text \<open>
  Modelled from the spec: the geometric product of the external geometric-algebra
  library (operator \<^verbatim>\<open>*\<close> on multivectors), for the algebra with
  \<open>e1\<^sup>2 = e2\<^sup>2 = e3\<^sup>2 = 1\<close>, \<open>e12 = e1 e2\<close>, \<open>e13 = e1 e3\<close>, \<open>e23 = e2 e3\<close> and
  \<open>e123 = e1 e2 e3\<close>, written out coefficient by coefficient.
\<close>

definition gp :: "multivector \<Rightarrow> multivector \<Rightarrow> multivector" where
  "gp a b = MV
     (sc a * sc b + c1 a * c1 b + c2 a * c2 b + c3 a * c3 b - c12 a * c12 b - c13 a * c13 b - c23 a * c23 b - c123 a * c123 b)
     (sc a * c1 b + c1 a * sc b - c2 a * c12 b - c3 a * c13 b + c12 a * c2 b + c13 a * c3 b - c23 a * c123 b - c123 a * c23 b)
     (sc a * c2 b + c1 a * c12 b + c2 a * sc b - c3 a * c23 b - c12 a * c1 b + c13 a * c123 b + c23 a * c3 b + c123 a * c13 b)
     (sc a * c3 b + c1 a * c13 b + c2 a * c23 b + c3 a * sc b - c12 a * c123 b - c13 a * c1 b - c23 a * c2 b - c123 a * c12 b)
     (sc a * c12 b + c1 a * c2 b - c2 a * c1 b + c3 a * c123 b + c12 a * sc b - c13 a * c23 b + c23 a * c13 b + c123 a * c3 b)
     (sc a * c13 b + c1 a * c3 b - c2 a * c123 b - c3 a * c1 b + c12 a * c23 b + c13 a * sc b - c23 a * c12 b - c123 a * c2 b)
     (sc a * c23 b + c1 a * c123 b + c2 a * c3 b - c3 a * c2 b - c12 a * c13 b + c13 a * c12 b + c23 a * sc b + c123 a * c1 b)
     (sc a * c123 b + c1 a * c23 b - c2 a * c13 b + c3 a * c12 b + c12 a * c3 b - c13 a * c2 b + c23 a * c1 b + c123 a * sc b)"

text \<open>
  Modelled from the spec: the reverse of the external library (operator \<^verbatim>\<open>~\<close>),
  which negates the bivector coefficients; a blade of grade \<open>k\<close> gets the sign
  \<open>(-1)\<^bsup>k(k-1)/2\<^esup>\<close>, so the trivector coefficient is negated as well.
\<close>

definition reverse :: "multivector \<Rightarrow> multivector" where
  "reverse a = MV (sc a) (c1 a) (c2 a) (c3 a) (- c12 a) (- c13 a) (- c23 a) (- c123 a)"

text \<open>
  Modelled from the spec: the magnitude of the external library (\<^verbatim>\<open>abs\<close> on a
  multivector), the square root of the scalar part of \<open>S\<close> times its reverse. Over the
  reals it is zero for the zero multivector only; on doubles the squares of small
  coefficients underflow, and the magnitude of a multivector that is not zero can be
  \<open>0.0\<close>. No theorem below concludes from a zero magnitude that the multivector is zero.
\<close>

definition abs_mv :: "multivector \<Rightarrow> real" where
  "abs_mv a = sqrt (sc (gp a (reverse a)))"

text \<open>
  Modelled from the spec: the inner product of the external library (operator
  \<^verbatim>\<open>|\<close>). Of the geometric product of a blade of grade \<open>r\<close> with one of grade \<open>s\<close>
  it keeps the part of grade \<open>|r - s|\<close>, and nothing when \<open>r\<close> or \<open>s\<close> is \<open>0\<close>; on two
  vectors this is the grade-0 part of their geometric product, their dot product.
\<close>

definition ip :: "multivector \<Rightarrow> multivector \<Rightarrow> multivector" where
  "ip a b = MV
     (c1 a * c1 b + c2 a * c2 b + c3 a * c3 b - c12 a * c12 b - c13 a * c13 b - c23 a * c23 b - c123 a * c123 b)
     (- c2 a * c12 b - c3 a * c13 b + c12 a * c2 b + c13 a * c3 b - c23 a * c123 b - c123 a * c23 b)
     (c1 a * c12 b - c3 a * c23 b - c12 a * c1 b + c13 a * c123 b + c23 a * c3 b + c123 a * c13 b)
     (c1 a * c13 b + c2 a * c23 b - c12 a * c123 b - c13 a * c1 b - c23 a * c2 b - c123 a * c12 b)
     (c3 a * c123 b + c123 a * c3 b)
     (- c2 a * c123 b - c123 a * c2 b)
     (c1 a * c123 b + c123 a * c1 b)
     0"

text \<open>
  Modelled from the spec: the exponential of the external library, reached by
  \<^verbatim>\<open>e**X\<close>, in the closed form the spec gives for a bivector argument: for a unit
  bivector \<open>B\<close> (with \<open>B\<^sup>2 = -1\<close>) the exponential of \<open>t B\<close> is \<open>cos t + sin t B\<close>. The
  argument is split into its magnitude \<open>n\<close> and the unit bivector \<open>X / n\<close>; only bivector
  arguments are meant, the ones \<open>R_euler\<close> passes.
\<close>

definition exp_mv :: "multivector \<Rightarrow> multivector" where
  "exp_mv X =
     (let n = sqrt ((c12 X)\<^sup>2 + (c13 X)\<^sup>2 + (c23 X)\<^sup>2)
      in if n = 0 then scalar_mv 1
         else add (scalar_mv (cos n)) (smult (sin n / n) X))"

subsection \<open>Euler angles to rotor\<close>

text \<open>
  \<^verbatim>\<open>
  def R_euler(phi, theta,psi):
      Rphi = e**(-phi/2.*e12)
      Rtheta = e**(-theta/2.*e23)
      Rpsi = e**(-psi/2.*e12)
      return Rphi*Rtheta*Rpsi
  \<close>
\<close>

definition R_euler :: "real \<Rightarrow> real \<Rightarrow> real \<Rightarrow> multivector" where
  "R_euler phi theta psi =
     (let Rphi = exp_mv (smult (- phi / 2) e12);
          Rtheta = exp_mv (smult (- theta / 2) e23);
          Rpsi = exp_mv (smult (- psi / 2) e12)
      in gp (gp Rphi Rtheta) Rpsi)"

subsection \<open>Errors and numpy division\<close>

text \<open>
  \<open>DegenerateRotationError\<close> and \<open>InvalidInputError\<close> are the error kinds the
  specification names; \<open>ValueError\<close> and \<open>IndexError\<close> are the exceptions the Python
  cells can raise (a failed coercion or \<^verbatim>\<open>reshape\<close>, an index out of range).
\<close>

datatype error = DegenerateRotationError | InvalidInputError | ValueError | IndexError

definition bind_r :: "error + 'a \<Rightarrow> ('a \<Rightarrow> error + 'b) \<Rightarrow> error + 'b" where
  "bind_r r f = (case r of Inl err \<Rightarrow> Inl err | Inr x \<Rightarrow> f x)"

fun traverse :: "('a \<Rightarrow> error + 'b) \<Rightarrow> 'a list \<Rightarrow> error + 'b list" where
  "traverse f [] = Inr []"
| "traverse f (x # xs) = bind_r (f x) (\<lambda>y. bind_r (traverse f xs) (\<lambda>ys. Inr (y # ys)))"

text \<open>
  A float that a numpy division returns: a number, NaN, or an infinity with its sign
  (\<open>Inf True\<close> is \<open>+inf\<close>). Dividing by zero raises nothing: \<open>0/0\<close> is NaN and \<open>x/0\<close> is
  an infinity. The only zero denominator in the notebook is a magnitude, a square
  root, hence \<open>+0.0\<close>.
\<close>

datatype npfloat = Num real | NaN | Inf bool

definition np_div :: "real \<Rightarrow> real \<Rightarrow> npfloat" where
  "np_div x d = (if d \<noteq> 0 then Num (x / d) else if x = 0 then NaN else Inf (0 < x))"

text \<open>\<^verbatim>\<open>R/abs(R)\<close>: a multivector divided by a scalar, coefficient by coefficient.\<close>

definition truediv :: "multivector \<Rightarrow> real \<Rightarrow> npfloat mv" where
  "truediv a d = map_mv (\<lambda>x. np_div x d) a"

text \<open>
  Python's \<^verbatim>\<open>sum\<close> starts from \<open>0\<close> and adds the elements from the left.
\<close>

definition sum_mv :: "multivector list \<Rightarrow> multivector" where
  "sum_mv xs = foldl add (scalar_mv 0) xs"

subsection \<open>Rotating a frame\<close>

text \<open>
  \<^verbatim>\<open>
  A = [e1,e2,e3]          # initial ortho-normal frame
  B = [R*a*~R for a in A] # resultant frame after rotation
  \<close>
  The specification calls this cell \<open>rotateFrame\<close>. Nothing in it raises.
\<close>

definition rotateFrame :: "multivector \<Rightarrow> multivector list \<Rightarrow> error + multivector list" where
  "rotateFrame R A = Inr (map (\<lambda>a. gp (gp R a) (reverse R)) A)"

subsection \<open>Frame to matrix\<close>

text \<open>
  Modelled from the spec: the coercion \<^verbatim>\<open>float\<close> of the external library, which
  gives the scalar coefficient of a multivector whose other coefficients are zero and
  raises \<open>ValueError\<close> on any other multivector.
\<close>

definition float_mv :: "multivector \<Rightarrow> error + real" where
  "float_mv a =
     (if c1 a = 0 \<and> c2 a = 0 \<and> c3 a = 0 \<and> c12 a = 0 \<and> c13 a = 0 \<and> c23 a = 0 \<and> c123 a = 0
      then Inr (sc a) else Inl ValueError)"

text \<open>\<^verbatim>\<open>array(M).reshape(3,3)\<close>: nine numbers become three rows of three.\<close>

definition reshape33 :: "real list \<Rightarrow> error + real list list" where
  "reshape33 xs =
     (if length xs = 9 then Inr [take 3 xs, take 3 (drop 3 xs), take 3 (drop 6 xs)]
      else Inl ValueError)"

text \<open>
  \<^verbatim>\<open>
  M = [float(b|a) for b in B for a in A] # you need float() due to bug in clifford
  M = array(M).reshape(3,3)
  \<close>
  The specification calls this cell \<open>frameToMatrix(original, rotated)\<close>, with
  \<open>original = A\<close> and \<open>rotated = B\<close>.
\<close>

definition frameToMatrix :: "multivector list \<Rightarrow> multivector list \<Rightarrow> error + real list list" where
  "frameToMatrix A B =
     bind_r (traverse float_mv (concat (map (\<lambda>b. map (\<lambda>a. ip b a) A) B))) reshape33"

subsection \<open>Matrix to rotor\<close>

text \<open>\<^verbatim>\<open>M[i,j]\<close> on a two-dimensional array; an index out of range raises.\<close>

definition getitem :: "real list list \<Rightarrow> nat \<Rightarrow> nat \<Rightarrow> error + real" where
  "getitem M i j =
     (if i < length M \<and> j < length (M ! i) then Inr (M ! i ! j) else Inl IndexError)"

text \<open>One element of the list \<open>B\<close>: \<^verbatim>\<open>M[0,k]*e1 + M[1,k]*e2 + M[2,k]*e3\<close>.\<close>

definition column_vector :: "real list list \<Rightarrow> nat \<Rightarrow> error + multivector" where
  "column_vector M k =
     bind_r (getitem M 0 k) (\<lambda>x.
     bind_r (getitem M 1 k) (\<lambda>y.
     bind_r (getitem M 2 k) (\<lambda>z.
       Inr (add (add (smult x e1) (smult y e2)) (smult z e3)))))"

text \<open>
  \<^verbatim>\<open>
  B = [M[0,0]*e1 + M[1,0]*e2 + M[2,0]*e3,
       M[0,1]*e1 + M[1,1]*e2 + M[2,1]*e3,
       M[0,2]*e1 + M[1,2]*e2 + M[2,2]*e3]
  \<close>
\<close>

definition matrix_frame :: "real list list \<Rightarrow> error + multivector list" where
  "matrix_frame M =
     bind_r (column_vector M 0) (\<lambda>b0.
     bind_r (column_vector M 1) (\<lambda>b1.
     bind_r (column_vector M 2) (\<lambda>b2. Inr [b0, b1, b2])))"

text \<open>
  \<^verbatim>\<open>
  A = [e1,e2,e3]
  R = 1+sum([A[k]*B[k] for k in range(3)])
  R = R/abs(R)
  \<close>
  \<open>frame_sum\<close> is \<open>R\<close> after the second line, \<open>frame_rotor\<close> after the third.
\<close>

definition frame_sum :: "multivector list \<Rightarrow> multivector" where
  "frame_sum B =
     (let A = [e1, e2, e3]
      in add (scalar_mv 1) (sum_mv (map (\<lambda>k. gp (A ! k) (B ! k)) [0..<3])))"

definition frame_rotor :: "multivector list \<Rightarrow> npfloat mv" where
  "frame_rotor B = (let R = frame_sum B in truediv R (abs_mv R))"

text \<open>The two cells together; the specification calls them \<open>matrixToRotor\<close>.\<close>

definition matrixToRotor :: "real list list \<Rightarrow> error + npfloat mv" where
  "matrixToRotor M = bind_r (matrix_frame M) (\<lambda>B. Inr (frame_rotor B))"

subsection \<open>The vocabulary of the specification\<close>

text \<open>A vector has grade 1 only; a rotor is an even multivector of magnitude 1.\<close>

definition is_vector :: "multivector \<Rightarrow> bool" where
  "is_vector a \<longleftrightarrow> sc a = 0 \<and> c12 a = 0 \<and> c13 a = 0 \<and> c23 a = 0 \<and> c123 a = 0"

definition is_even :: "multivector \<Rightarrow> bool" where
  "is_even a \<longleftrightarrow> c1 a = 0 \<and> c2 a = 0 \<and> c3 a = 0 \<and> c123 a = 0"

definition unit_rotor :: "multivector \<Rightarrow> bool" where
  "unit_rotor R \<longleftrightarrow> is_even R \<and> abs_mv R = 1"

text \<open>The dot product of two vectors, as the notebook takes it: the scalar of \<^verbatim>\<open>a|b\<close>.\<close>

definition dot :: "multivector \<Rightarrow> multivector \<Rightarrow> real" where
  "dot a b = sc (ip a b)"

text \<open>A frame is orthonormal: vectors of unit length, orthogonal to each other.\<close>

fun orthonormal :: "multivector list \<Rightarrow> bool" where
  "orthonormal [] = True"
| "orthonormal (v # vs) =
     (is_vector v \<and> dot v v = 1 \<and> list_all (\<lambda>u. dot v u = 0 \<and> dot u v = 0) vs \<and> orthonormal vs)"

text \<open>A 3x3 array, its trace and determinant, and what a proper rotation matrix is.\<close>

definition shape3 :: "real list list \<Rightarrow> bool" where
  "shape3 M \<longleftrightarrow> length M = 3 \<and> list_all (\<lambda>r. length r = 3) M"

definition trace3 :: "real list list \<Rightarrow> real" where
  "trace3 M = M ! 0 ! 0 + M ! 1 ! 1 + M ! 2 ! 2"

definition det3 :: "real list list \<Rightarrow> real" where
  "det3 M =
     M ! 0 ! 0 * (M ! 1 ! 1 * M ! 2 ! 2 - M ! 1 ! 2 * M ! 2 ! 1)
     - M ! 0 ! 1 * (M ! 1 ! 0 * M ! 2 ! 2 - M ! 1 ! 2 * M ! 2 ! 0)
     + M ! 0 ! 2 * (M ! 1 ! 0 * M ! 2 ! 1 - M ! 1 ! 1 * M ! 2 ! 0)"

definition col_dot :: "real list list \<Rightarrow> nat \<Rightarrow> nat \<Rightarrow> real" where
  "col_dot M j k = M ! 0 ! j * M ! 0 ! k + M ! 1 ! j * M ! 1 ! k + M ! 2 ! j * M ! 2 ! k"

text \<open>Orthogonal: the transpose times the matrix is the identity.\<close>

definition orthogonal3 :: "real list list \<Rightarrow> bool" where
  "orthogonal3 M \<longleftrightarrow>
     col_dot M 0 0 = 1 \<and> col_dot M 1 1 = 1 \<and> col_dot M 2 2 = 1 \<and>
     col_dot M 0 1 = 0 \<and> col_dot M 0 2 = 0 \<and> col_dot M 1 2 = 0"

definition proper_rotation :: "real list list \<Rightarrow> bool" where
  "proper_rotation M \<longleftrightarrow> shape3 M \<and> orthogonal3 M \<and> det3 M = 1"

subsection \<open>The conversion as the specification words it\<close>

text \<open>
  Step 1: \<open>B[k]\<close> is the sum over \<open>i\<close> of \<open>M[i,k] e\<^sub>i\<close>, for \<open>k\<close> in \<open>{0,1,2}\<close>.
  Step 2: \<open>A\<close> is the canonical basis. Step 3: \<open>S\<close> is \<open>1\<close> plus the sum over \<open>k\<close> of
  \<open>A[k] B[k]\<close>. Step 4: the rotor is \<open>S\<close> divided by its magnitude, the square root of
  the scalar part of \<open>S\<close> times its reverse.
\<close>

definition canonical_basis :: "multivector list" where
  "canonical_basis = [e1, e2, e3]"

definition spec_B :: "real list list \<Rightarrow> nat \<Rightarrow> multivector" where
  "spec_B M k = foldr add (map (\<lambda>i. smult (M ! i ! k) (canonical_basis ! i)) [0..<3]) (scalar_mv 0)"

definition spec_S :: "real list list \<Rightarrow> multivector" where
  "spec_S M =
     add (scalar_mv 1)
       (foldr add (map (\<lambda>k. gp (canonical_basis ! k) (spec_B M k)) [0..<3]) (scalar_mv 0))"

definition spec_matrixToRotor :: "real list list \<Rightarrow> npfloat mv" where
  "spec_matrixToRotor M = truediv (spec_S M) (sqrt (sc (gp (spec_S M) (reverse (spec_S M)))))"

text \<open>
  The elemental rotor as the specification words it: the exponential of \<open>t B\<close> for a
  unit bivector \<open>B\<close> is \<open>cos t + sin t B\<close>.
\<close>

definition spec_exp :: "real \<Rightarrow> multivector \<Rightarrow> multivector" where
  "spec_exp t B = add (scalar_mv (cos t)) (smult (sin t) B)"

section \<open>Properties\<close>

subsection \<open>The algebra\<close>

lemma gp_assoc: "gp (gp a b) c = gp a (gp b c)"
  by (simp add: gp_def algebra_simps)

lemma gp_generators:
  "gp e1 e1 = scalar_mv 1" "gp e2 e2 = scalar_mv 1" "gp e3 e3 = scalar_mv 1"
  "gp e1 e2 = e12" "gp e1 e3 = e13" "gp e2 e3 = e23" "gp e12 e3 = e123"
  "gp e2 e1 = smult (- 1) e12" "gp e3 e1 = smult (- 1) e13" "gp e3 e2 = smult (- 1) e23"
  by (simp_all add: gp_def e1_def e2_def e3_def e12_def e13_def e23_def e123_def
      scalar_mv_def smult_def)

lemma gp_scalar_left: "gp (scalar_mv k) a = smult k a"
  by (simp add: gp_def scalar_mv_def smult_def)

lemma gp_scalar_right: "gp a (scalar_mv k) = smult k a"
  by (simp add: gp_def scalar_mv_def smult_def)

lemma abs_mv_sumsq:
  "abs_mv a = sqrt ((sc a)\<^sup>2 + (c1 a)\<^sup>2 + (c2 a)\<^sup>2 + (c3 a)\<^sup>2
                    + (c12 a)\<^sup>2 + (c13 a)\<^sup>2 + (c23 a)\<^sup>2 + (c123 a)\<^sup>2)"
  by (simp add: abs_mv_def gp_def reverse_def power2_eq_square)

text \<open>
  The spec's closed form of the exponential: for a unit bivector \<open>B\<close> the exponential
  of \<open>t B\<close> is \<open>cos t + sin t B\<close>.
\<close>

lemma exp_mv_unit_bivector:
  assumes "(c12 B)\<^sup>2 + (c13 B)\<^sup>2 + (c23 B)\<^sup>2 = 1"
  shows "exp_mv (smult t B) = add (scalar_mv (cos t)) (smult (sin t) B)"
proof -
  have "(c12 (smult t B))\<^sup>2 + (c13 (smult t B))\<^sup>2 + (c23 (smult t B))\<^sup>2
        = t\<^sup>2 * ((c12 B)\<^sup>2 + (c13 B)\<^sup>2 + (c23 B)\<^sup>2)"
    by (simp add: smult_def power_mult_distrib distrib_left)
  then have n: "sqrt ((c12 (smult t B))\<^sup>2 + (c13 (smult t B))\<^sup>2 + (c23 (smult t B))\<^sup>2) = \<bar>t\<bar>"
    using assms by simp
  show ?thesis
  proof (cases "t = 0")
    case True
    then show ?thesis
      by (simp add: exp_mv_def smult_def add_def scalar_mv_def)
  next
    case False
    have s: "sin \<bar>t\<bar> * t / \<bar>t\<bar> = sin t"
      using False by (cases "0 \<le> t") (simp_all add: abs_if)
    have "smult (sin \<bar>t\<bar> / \<bar>t\<bar>) (smult t B) = smult (sin \<bar>t\<bar> * t / \<bar>t\<bar>) B"
      by (simp add: smult_def)
    with False n s show ?thesis
      by (simp add: exp_mv_def Let_def)
  qed
qed

lemma gp_one_left: "gp (scalar_mv 1) a = a"
  by (cases a) (simp add: gp_def scalar_mv_def)

lemma gp_one_right: "gp a (scalar_mv 1) = a"
  by (cases a) (simp add: gp_def scalar_mv_def)

lemma reverse_scalar: "reverse (scalar_mv k) = scalar_mv k"
  by (simp add: reverse_def scalar_mv_def)

subsection \<open>Euler angles to rotor\<close>

lemma R_euler_closed:
  "R_euler phi theta psi =
     gp (gp (spec_exp (- (phi / 2)) e12) (spec_exp (- (theta / 2)) e23))
        (spec_exp (- (psi / 2)) e12)"
proof -
  have a: "exp_mv (smult t e12) = spec_exp t e12" for t
    unfolding spec_exp_def by (rule exp_mv_unit_bivector) (simp add: e12_def)
  have b: "exp_mv (smult t e23) = spec_exp t e23" for t
    unfolding spec_exp_def by (rule exp_mv_unit_bivector) (simp add: e23_def)
  show ?thesis
    by (simp add: R_euler_def Let_def a b)
qed

text \<open>The eight coefficients of the rotor, by the addition formulas of sine and cosine.\<close>

lemma R_euler_coeffs:
  "R_euler phi theta psi =
     MV (cos (theta / 2) * cos ((phi + psi) / 2)) 0 0 0
        (- (cos (theta / 2) * sin ((phi + psi) / 2)))
        (sin (theta / 2) * sin ((phi - psi) / 2))
        (- (sin (theta / 2) * cos ((phi - psi) / 2))) 0"
  apply (simp add: R_euler_closed spec_exp_def gp_def add_def smult_def scalar_mv_def
      e12_def e23_def add_divide_distrib diff_divide_distrib cos_add sin_add cos_diff sin_diff)
  apply (simp add: algebra_simps)
  done

text \<open>
  C1. \<open>eulerToRotor(phi, theta, psi)\<close>, the notebook's \<open>R_euler\<close>, returns the geometric
  product \<open>R1 R2 R3\<close>, multiplied from the left, of the elemental rotors
  \<open>R1 = exp(-(phi/2) e12)\<close>, \<open>R2 = exp(-(theta/2) e23)\<close> and \<open>R3 = exp(-(psi/2) e12)\<close>,
  for all real angles.
\<close>

theorem C1_eulerToRotor_is_product:
  "R_euler phi theta psi =
     gp (gp (spec_exp (- (phi / 2)) e12) (spec_exp (- (theta / 2)) e23))
        (spec_exp (- (psi / 2)) e12)"
  by (rule R_euler_closed)

text \<open>
  C5. For all real angles the rotor that \<open>eulerToRotor\<close> returns has magnitude 1
  (exactly so over the reals).
\<close>

theorem C5_eulerToRotor_unit_norm: "abs_mv (R_euler phi theta psi) = 1"
proof -
  have e: "(a * b)\<^sup>2 + (a * c)\<^sup>2 + (d * f)\<^sup>2 + (d * g)\<^sup>2
           = a\<^sup>2 * (b\<^sup>2 + c\<^sup>2) + d\<^sup>2 * (f\<^sup>2 + g\<^sup>2)" for a b c d f g :: real
    by (simp add: power_mult_distrib algebra_simps)
  show ?thesis
    by (simp add: abs_mv_sumsq R_euler_coeffs e)
qed

text \<open>
  C9. Identity laws: \<open>eulerToRotor(0, 0, 0)\<close> is the scalar rotor 1, with no bivector
  coefficient, and \<open>rotateFrame\<close> with the rotor 1 returns its frame unchanged, for
  every frame.
\<close>

theorem C9_identity_laws:
  "R_euler 0 0 0 = MV 1 0 0 0 0 0 0 0 \<and> rotateFrame (scalar_mv 1) F = Inr F"
  by (simp add: R_euler_coeffs rotateFrame_def gp_one_left gp_one_right reverse_scalar)

subsection \<open>Matrix to rotor\<close>

lemma upt_3: "[0..<3] = [0, 1, 2]"
  by (simp add: upt_rec)

lemma sqrt_4: "sqrt 4 = 2"
  using real_sqrt_abs [of 2] by simp

lemma list3E:
  assumes "length xs = 3"
  obtains x0 x1 x2 where "xs = [x0, x1, x2]"
  using assms by (auto simp: length_Suc_conv numeral_3_eq_3)

lemma shape3E:
  assumes "shape3 M"
  obtains m00 m01 m02 m10 m11 m12 m20 m21 m22
  where "M = [[m00, m01, m02], [m10, m11, m12], [m20, m21, m22]]"
proof -
  from assms have l: "length M = 3" and r: "\<forall>r \<in> set M. length r = 3"
    by (simp_all add: shape3_def list_all_iff)
  from l obtain r0 r1 r2 where M: "M = [r0, r1, r2]"
    by (rule list3E)
  from r M have "length r0 = 3" "length r1 = 3" "length r2 = 3" by simp_all
  then obtain a b c d e f g h i where "r0 = [a, b, c]" "r1 = [d, e, f]" "r2 = [g, h, i]"
    by (auto simp: length_Suc_conv numeral_3_eq_3)
  with M that show thesis by blast
qed

text \<open>The first cell reads the columns of the matrix into vectors.\<close>

lemma matrix_frame_3x3:
  "matrix_frame [[m00, m01, m02], [m10, m11, m12], [m20, m21, m22]] =
     Inr [MV 0 m00 m10 m20 0 0 0 0, MV 0 m01 m11 m21 0 0 0 0, MV 0 m02 m12 m22 0 0 0 0]"
  by (simp add: matrix_frame_def column_vector_def getitem_def bind_r_def
      add_def smult_def e1_def e2_def e3_def)

text \<open>
  The sum before normalisation: its scalar is one plus the trace, its bivector part
  the antisymmetric part of the matrix.
\<close>

lemma frame_sum_vectors:
  "frame_sum [MV 0 m00 m10 m20 0 0 0 0, MV 0 m01 m11 m21 0 0 0 0, MV 0 m02 m12 m22 0 0 0 0] =
     MV (1 + (m00 + m11 + m22)) 0 0 0 (m10 - m01) (m20 - m02) (m21 - m12) 0"
  by (simp add: frame_sum_def sum_mv_def upt_3 gp_def add_def scalar_mv_def e1_def e2_def e3_def)

lemma spec_S_3x3:
  "spec_S [[m00, m01, m02], [m10, m11, m12], [m20, m21, m22]] =
     MV (1 + (m00 + m11 + m22)) 0 0 0 (m10 - m01) (m20 - m02) (m21 - m12) 0"
  by (simp add: spec_S_def spec_B_def canonical_basis_def upt_3 gp_def add_def smult_def
      scalar_mv_def e1_def e2_def e3_def)

lemma matrixToRotor_3x3:
  assumes "shape3 M"
  shows "matrixToRotor M = Inr (spec_matrixToRotor M)"
proof -
  from assms obtain m00 m01 m02 m10 m11 m12 m20 m21 m22
    where M: "M = [[m00, m01, m02], [m10, m11, m12], [m20, m21, m22]]"
    by (rule shape3E)
  show ?thesis
    unfolding M matrixToRotor_def spec_matrixToRotor_def
    by (simp add: matrix_frame_3x3 bind_r_def frame_rotor_def Let_def frame_sum_vectors
        spec_S_3x3 abs_mv_def)
qed

text \<open>
  C2. \<open>matrixToRotor(M)\<close> computes its result by the steps of the specification: the
  column frame \<open>B[k] = \<Sum>\<^sub>i M[i,k] e\<^sub>i\<close>, the canonical basis \<open>A\<close>, the sum
  \<open>S = 1 + \<Sum>\<^sub>k A[k] B[k]\<close>, and \<open>S\<close> divided by its magnitude, the square root of the
  scalar part of \<open>S\<close> times its reverse. The two cells of the notebook return, on every
  3x3 array, what the steps worded by the specification return.
\<close>

theorem C2_matrixToRotor_steps:
  assumes "shape3 M"
  shows "matrixToRotor M = Inr (spec_matrixToRotor M)"
  using assms by (rule matrixToRotor_3x3)

theorem C2_matrixToRotor_steps_witness:
  "shape3 [[0, 0, 1], [1, 0, 0], [0, 1, 0]] \<and>
   matrixToRotor [[0, 0, 1], [1, 0, 0], [0, 1, 0]]
     = Inr (spec_matrixToRotor [[0, 0, 1], [1, 0, 0], [0, 1, 0]])"
  using C2_matrixToRotor_steps [of "[[0, 0, 1], [1, 0, 0], [0, 1, 0]]"]
  by (simp add: shape3_def)




text \<open>
  C6, as the specification states it: \<open>matrixToRotor\<close> raises \<open>InvalidInputError\<close> on a
  matrix that is not orthogonal or is improper, and \<open>rotateFrame\<close> on a rotor that is
  not of unit magnitude. The notebook validates nothing: the reflection
  \<open>diag(1, 1, -1)\<close>, of determinant \<open>-1\<close>, is converted to the rotor 1, and the
  multivector 2 scales the canonical frame by 4.
\<close>

theorem C6_validation_counterexample:
  "det3 [[1, 0, 0], [0, 1, 0], [0, 0, - 1]] = - 1 \<and>
   \<not> proper_rotation [[1, 0, 0], [0, 1, 0], [0, 0, - 1]] \<and>
   matrixToRotor [[1, 0, 0], [0, 1, 0], [0, 0, - 1]]
     = Inr (MV (Num 1) (Num 0) (Num 0) (Num 0) (Num 0) (Num 0) (Num 0) (Num 0)) \<and>
   \<not> unit_rotor (scalar_mv 2) \<and>
   rotateFrame (scalar_mv 2) [e1, e2, e3] = Inr [smult 4 e1, smult 4 e2, smult 4 e3]"
  by (simp add: proper_rotation_def det3_def matrixToRotor_def matrix_frame_3x3 bind_r_def
      frame_rotor_def Let_def frame_sum_vectors abs_mv_sumsq truediv_def np_div_def sqrt_4
      unit_rotor_def rotateFrame_def gp_def reverse_def scalar_mv_def smult_def
      e1_def e2_def e3_def)

text \<open>
  C6, amended: neither cell validates its input or raises \<open>InvalidInputError\<close>. On
  every 3x3 array, orthogonal or not, \<open>matrixToRotor\<close> returns \<open>S\<close> divided by its
  magnitude; on every multivector \<open>R\<close> and every list of multivectors \<open>rotateFrame\<close>
  returns the list of the products \<open>R a ~R\<close>.
\<close>

theorem C6_no_validation:
  assumes "shape3 M"
  shows "matrixToRotor M = Inr (truediv (spec_S M) (abs_mv (spec_S M))) \<and>
         matrixToRotor M \<noteq> Inl InvalidInputError \<and>
         rotateFrame R F = Inr (map (\<lambda>a. gp (gp R a) (reverse R)) F) \<and>
         rotateFrame R F \<noteq> Inl InvalidInputError"
  using assms
  by (simp add: matrixToRotor_3x3 spec_matrixToRotor_def abs_mv_def rotateFrame_def)

theorem C6_no_validation_witness:
  "shape3 [[2, 0, 0], [0, 2, 0], [0, 0, 2]] \<and>
   matrixToRotor [[2, 0, 0], [0, 2, 0], [0, 0, 2]]
     = Inr (truediv (spec_S [[2, 0, 0], [0, 2, 0], [0, 0, 2]])
                    (abs_mv (spec_S [[2, 0, 0], [0, 2, 0], [0, 0, 2]]))) \<and>
   rotateFrame (scalar_mv 2) [e1] = Inr [gp (gp (scalar_mv 2) e1) (reverse (scalar_mv 2))]"
proof -
  have s: "shape3 [[2, 0, 0], [0, 2, 0], [0, 0, 2]]"
    by (simp add: shape3_def)
  from s C6_no_validation [OF s, of "scalar_mv 2" "[e1]"] show ?thesis by simp
qed

subsection \<open>Frame to matrix\<close>

lemma float_ip_vectors:
  assumes "is_vector a" "is_vector b"
  shows "float_mv (ip b a) = Inr (c1 b * c1 a + c2 b * c2 a + c3 b * c3 a)"
    and "sc (gp b a) = c1 b * c1 a + c2 b * c2 a + c3 b * c3 a"
  using assms by (simp_all add: is_vector_def float_mv_def ip_def gp_def)

lemma frameToMatrix_vectors:
  assumes "is_vector a0" "is_vector a1" "is_vector a2"
      "is_vector b0" "is_vector b1" "is_vector b2"
  shows "frameToMatrix [a0, a1, a2] [b0, b1, b2] = Inr
     [[c1 b0 * c1 a0 + c2 b0 * c2 a0 + c3 b0 * c3 a0,
       c1 b0 * c1 a1 + c2 b0 * c2 a1 + c3 b0 * c3 a1,
       c1 b0 * c1 a2 + c2 b0 * c2 a2 + c3 b0 * c3 a2],
      [c1 b1 * c1 a0 + c2 b1 * c2 a0 + c3 b1 * c3 a0,
       c1 b1 * c1 a1 + c2 b1 * c2 a1 + c3 b1 * c3 a1,
       c1 b1 * c1 a2 + c2 b1 * c2 a2 + c3 b1 * c3 a2],
      [c1 b2 * c1 a0 + c2 b2 * c2 a0 + c3 b2 * c3 a0,
       c1 b2 * c1 a1 + c2 b2 * c2 a1 + c3 b2 * c3 a1,
       c1 b2 * c1 a2 + c2 b2 * c2 a2 + c3 b2 * c3 a2]]"
  by (simp add: frameToMatrix_def float_ip_vectors(1) assms bind_r_def reshape33_def)

text \<open>
  C7. \<open>frameToMatrix(original, rotated)\<close> returns the 3x3 matrix whose entry \<open>(i,j)\<close> is
  the dot product of \<open>rotated[i]\<close> with \<open>original[j]\<close>, the grade-0 part of their
  geometric product, as a real number. Here \<open>A\<close> is \<open>original\<close> and \<open>B\<close> is \<open>rotated\<close>,
  two triples of vectors.
\<close>

theorem C7_frameToMatrix_entries:
  assumes "length A = 3" "length B = 3" "list_all is_vector A" "list_all is_vector B"
    and "i < 3" "j < 3"
  shows "\<exists>M. frameToMatrix A B = Inr M \<and> shape3 M \<and>
           M ! i ! j = sc (gp (B ! i) (A ! j)) \<and>
           M ! i ! j = c1 (B ! i) * c1 (A ! j) + c2 (B ! i) * c2 (A ! j) + c3 (B ! i) * c3 (A ! j)"
proof -
  from assms(1) obtain a0 a1 a2 where A: "A = [a0, a1, a2]" by (rule list3E)
  from assms(2) obtain b0 b1 b2 where B: "B = [b0, b1, b2]" by (rule list3E)
  from assms(3,4) have v: "is_vector a0" "is_vector a1" "is_vector a2"
      "is_vector b0" "is_vector b1" "is_vector b2"
    by (simp_all add: A B)
  have i: "i = 0 \<or> i = 1 \<or> i = 2" and j: "j = 0 \<or> j = 1 \<or> j = 2"
    using assms(5,6) by auto
  note m = frameToMatrix_vectors [OF v]
  show ?thesis
    using i j v unfolding A B m by (auto simp: float_ip_vectors(2) shape3_def)
qed

theorem C7_frameToMatrix_entries_witness:
  "length [e1, e2, e3] = 3 \<and> length [e2, smult (- 1) e1, e3] = 3 \<and>
   list_all is_vector [e1, e2, e3] \<and> list_all is_vector [e2, smult (- 1) e1, e3] \<and>
   (1::nat) < 3 \<and> (0::nat) < 3 \<and>
   (\<exists>M. frameToMatrix [e1, e2, e3] [e2, smult (- 1) e1, e3] = Inr M \<and> M ! 1 ! 0 = - 1)"
proof -
  have v: "list_all is_vector [e1, e2, e3]" "list_all is_vector [e2, smult (- 1) e1, e3]"
    by (simp_all add: is_vector_def e1_def e2_def e3_def smult_def)
  have l: "length [e1, e2, e3] = 3" "length [e2, smult (- 1) e1, e3] = 3" "(1::nat) < 3" "(0::nat) < 3"
    by simp_all
  from C7_frameToMatrix_entries [OF l(1,2) v l(3,4)]
  obtain M where "frameToMatrix [e1, e2, e3] [e2, smult (- 1) e1, e3] = Inr M"
    and "M ! 1 ! 0 = c1 ([e2, smult (- 1) e1, e3] ! 1) * c1 ([e1, e2, e3] ! 0)
          + c2 ([e2, smult (- 1) e1, e3] ! 1) * c2 ([e1, e2, e3] ! 0)
          + c3 ([e2, smult (- 1) e1, e3] ! 1) * c3 ([e1, e2, e3] ! 0)"
    by blast
  then have "frameToMatrix [e1, e2, e3] [e2, smult (- 1) e1, e3] = Inr M \<and> M ! 1 ! 0 = - 1"
    by (simp add: e1_def e2_def e3_def smult_def)
  with v l show ?thesis by blast
qed

subsection \<open>Rotating a frame\<close>

text \<open>The coefficients of \<open>R a ~R\<close> for an even \<open>R\<close> and a vector \<open>a\<close>.\<close>

lemma conjugate_coeffs:
  "gp (gp (MV w 0 0 0 p q r 0) (MV 0 x y z 0 0 0 0)) (reverse (MV w 0 0 0 p q r 0)) =
     MV 0
       ((w\<^sup>2 - p\<^sup>2 - q\<^sup>2 + r\<^sup>2) * x + 2 * (w * p - q * r) * y + 2 * (w * q + p * r) * z)
       (2 * (- (w * p) - q * r) * x + (w\<^sup>2 - p\<^sup>2 + q\<^sup>2 - r\<^sup>2) * y + 2 * (w * r - p * q) * z)
       (2 * (p * r - w * q) * x + 2 * (- (w * r) - p * q) * y + (w\<^sup>2 + p\<^sup>2 - q\<^sup>2 - r\<^sup>2) * z)
       0 0 0 0"
  by (simp add: gp_def reverse_def power2_eq_square algebra_simps)

lemma even_vector_forms:
  assumes "is_even R" "is_vector a"
  obtains w p q r x y z where "R = MV w 0 0 0 p q r 0" "a = MV 0 x y z 0 0 0 0"
  using assms by (cases R, cases a) (simp add: is_even_def is_vector_def)

lemma conjugate_is_vector:
  assumes "is_even R" "is_vector a"
  shows "is_vector (gp (gp R a) (reverse R))"
proof -
  from assms obtain w p q r x y z where "R = MV w 0 0 0 p q r 0" "a = MV 0 x y z 0 0 0 0"
    by (rule even_vector_forms)
  then show ?thesis
    by (simp only: conjugate_coeffs) (simp add: is_vector_def)
qed

text \<open>Conjugation by an even multivector scales dot products by its magnitude to the fourth.\<close>

lemma conjugate_preserves_dot:
  assumes "is_even R" "is_vector a" "is_vector b"
  shows "dot (gp (gp R a) (reverse R)) (gp (gp R b) (reverse R)) = (abs_mv R) ^ 4 * dot a b"
proof -
  from assms(1,2) obtain w p q r x y z
    where R: "R = MV w 0 0 0 p q r 0" and a: "a = MV 0 x y z 0 0 0 0"
    by (rule even_vector_forms)
  from assms(3) obtain x' y' z' where b: "b = MV 0 x' y' z' 0 0 0 0"
    by (cases b) (simp add: is_vector_def)
  have n: "(abs_mv R) ^ 4 = (w\<^sup>2 + p\<^sup>2 + q\<^sup>2 + r\<^sup>2)\<^sup>2"
  proof -
    have "(abs_mv R) ^ 4 = ((abs_mv R)\<^sup>2)\<^sup>2" by simp
    also have "\<dots> = (w\<^sup>2 + p\<^sup>2 + q\<^sup>2 + r\<^sup>2)\<^sup>2"
      by (simp add: R abs_mv_sumsq)
    finally show ?thesis .
  qed
  show ?thesis
    unfolding n unfolding R a b conjugate_coeffs
    by (simp add: dot_def ip_def) algebra
qed

lemma orthonormal_vectors: "orthonormal F \<Longrightarrow> list_all is_vector F"
  by (induction F) simp_all

lemma conjugate_orthonormal:
  assumes "unit_rotor R" "orthonormal F"
  shows "orthonormal (map (\<lambda>a. gp (gp R a) (reverse R)) F)"
  using assms(2)
proof (induction F)
  case Nil
  show ?case by simp
next
  case (Cons v vs)
  from assms(1) have e: "is_even R" and u: "abs_mv R = 1"
    by (simp_all add: unit_rotor_def)
  from Cons.prems have v: "is_vector v" and vs: "list_all is_vector vs"
    by (simp_all add: orthonormal_vectors)
  have d: "dot (gp (gp R a) (reverse R)) (gp (gp R b) (reverse R)) = dot a b"
    if "is_vector a" "is_vector b" for a b
    using conjugate_preserves_dot [OF e that] by (simp add: u)
  from Cons.prems vs
  have "list_all (\<lambda>u. dot (gp (gp R v) (reverse R)) (gp (gp R u) (reverse R)) = 0
                     \<and> dot (gp (gp R u) (reverse R)) (gp (gp R v) (reverse R)) = 0) vs"
    by (auto simp: list_all_iff d v)
  with Cons show ?case
    by (simp add: conjugate_is_vector e v d list_all_iff)
qed

text \<open>
  C8. For every unit rotor \<open>R\<close> and every orthonormal frame, the frame that
  \<open>rotateFrame\<close> returns, the products \<open>R a ~R\<close>, is again orthonormal: vectors of
  unit length, orthogonal to each other. The cell is a function of its two arguments
  and returns a new list.
\<close>

theorem C8_rotateFrame_orthonormal:
  assumes "unit_rotor R" "orthonormal F"
  shows "\<exists>G. rotateFrame R F = Inr G \<and> length G = length F \<and> orthonormal G"
  using conjugate_orthonormal [OF assms] by (simp add: rotateFrame_def)

theorem C8_rotateFrame_orthonormal_witness:
  "unit_rotor (MV (3 / 5) 0 0 0 (4 / 5) 0 0 0) \<and> orthonormal [e1, e2, e3] \<and>
   (\<exists>G. rotateFrame (MV (3 / 5) 0 0 0 (4 / 5) 0 0 0) [e1, e2, e3] = Inr G \<and>
        length G = 3 \<and> orthonormal G)"
proof -
  have u: "unit_rotor (MV (3 / 5) 0 0 0 (4 / 5) 0 0 0)"
    using real_sqrt_abs [of 1]
    by (simp add: unit_rotor_def is_even_def abs_mv_sumsq power2_eq_square)
  have o: "orthonormal [e1, e2, e3]"
    by (simp add: is_vector_def dot_def ip_def e1_def e2_def e3_def)
  have "\<exists>G. rotateFrame (MV (3 / 5) 0 0 0 (4 / 5) 0 0 0) [e1, e2, e3] = Inr G \<and>
            length G = 3 \<and> orthonormal G"
    using C8_rotateFrame_orthonormal [OF u o] by (simp add: numeral_3_eq_3)
  with u o show ?thesis by blast
qed

subsection \<open>Proper rotation matrices\<close>

text \<open>
  In a proper rotation matrix the third column is the cross product of the first two:
  the difference of the two has squared length \<open>1 - 2 det + 1 = 0\<close>.
\<close>

lemma cross_col:
  fixes a b c d e f g h i :: real
  assumes o: "a*a + d*d + g*g = 1" "b*b + e*e + h*h = 1" "c*c + f*f + i*i = 1"
             "a*b + d*e + g*h = 0" "a*c + d*f + g*i = 0" "b*c + e*f + h*i = 0"
      and dt: "a * (e * i - f * h) - b * (d * i - f * g) + c * (d * h - e * g) = 1"
  shows "c = d * h - g * e" "f = g * b - a * h" "i = a * e - d * b"
proof -
  have "(d * h - g * e - c)\<^sup>2 + (g * b - a * h - f)\<^sup>2 + (a * e - d * b - i)\<^sup>2
        = (a*a + d*d + g*g) * (b*b + e*e + h*h) - (a*b + d*e + g*h)\<^sup>2
          - 2 * (a * (e * i - f * h) - b * (d * i - f * g) + c * (d * h - e * g))
          + (c*c + f*f + i*i)"
    by (simp add: power2_eq_square algebra_simps)
  also have "\<dots> = 0"
    by (simp add: o dt)
  finally have "d * h - g * e - c = 0 \<and> g * b - a * h - f = 0 \<and> a * e - d * b - i = 0"
    by (simp add: sum_power2_eq_zero_iff add_nonneg_eq_0_iff)
  then show "c = d * h - g * e" "f = g * b - a * h" "i = a * e - d * b" by simp_all
qed

text \<open>
  With \<open>w = 1 + trace\<close> and \<open>p, q, r\<close> the antisymmetric part, the coefficients of \<open>S\<close>:
  the squared magnitude of \<open>S\<close> is \<open>4 w\<close>, and conjugation by \<open>S\<close> gives \<open>4 w\<close> times the
  entries of the matrix.
\<close>

lemma rotation_identities:
  fixes a b c d e f g h i :: real
  assumes o: "a*a + d*d + g*g = 1" "b*b + e*e + h*h = 1" "a*b + d*e + g*h = 0"
    and x: "c = d * h - g * e" "f = g * b - a * h" "i = a * e - d * b"
  defines "w \<equiv> 1 + (a + e + i)" and "p \<equiv> d - b" and "q \<equiv> g - c" and "r \<equiv> h - f"
  shows "w\<^sup>2 + p\<^sup>2 + q\<^sup>2 + r\<^sup>2 = 4 * w"
    and "w\<^sup>2 - p\<^sup>2 - q\<^sup>2 + r\<^sup>2 = 4 * w * a"
    and "2 * (- (w * p) - q * r) = 4 * w * b"
    and "2 * (p * r - w * q) = 4 * w * c"
    and "2 * (w * p - q * r) = 4 * w * d"
    and "w\<^sup>2 - p\<^sup>2 + q\<^sup>2 - r\<^sup>2 = 4 * w * e"
    and "2 * (- (w * r) - p * q) = 4 * w * f"
    and "2 * (w * q + p * r) = 4 * w * g"
    and "2 * (w * r - p * q) = 4 * w * h"
    and "w\<^sup>2 + p\<^sup>2 - q\<^sup>2 - r\<^sup>2 = 4 * w * i"
  using o unfolding w_def p_def q_def r_def x by algebra+

lemma proper_rotationE:
  assumes "proper_rotation M"
  obtains a b c d e f g h i :: real
  where "M = [[a, b, c], [d, e, f], [g, h, i]]"
    and "a*a + d*d + g*g = 1" "b*b + e*e + h*h = 1" "a*b + d*e + g*h = 0"
    and "c = d * h - g * e" "f = g * b - a * h" "i = a * e - d * b"
proof -
  from assms have "shape3 M" by (simp add: proper_rotation_def)
  then obtain a b c d e f g h i where M: "M = [[a, b, c], [d, e, f], [g, h, i]]"
    by (rule shape3E)
  from assms have o: "a*a + d*d + g*g = 1" "b*b + e*e + h*h = 1" "c*c + f*f + i*i = 1"
             "a*b + d*e + g*h = 0" "a*c + d*f + g*i = 0" "b*c + e*f + h*i = 0"
    and dt: "a * (e * i - f * h) - b * (d * i - f * g) + c * (d * h - e * g) = 1"
    by (simp_all add: proper_rotation_def orthogonal3_def col_dot_def det3_def M)
  from cross_col [OF o dt] M o(1,2,4) that show thesis by blast
qed

text \<open>The rotor of a 3x3 matrix whose sum \<open>S\<close> is not zero: finite coefficients.\<close>

lemma rotor_of_matrix:
  assumes "M = [[a, b, c], [d, e, f], [g, h, i]]"
    and "abs_mv (spec_S M) \<noteq> 0"
  defines "w \<equiv> 1 + (a + e + i)" and "p \<equiv> d - b" and "q \<equiv> g - c" and "r \<equiv> h - f"
  defines "n \<equiv> sqrt (w\<^sup>2 + p\<^sup>2 + q\<^sup>2 + r\<^sup>2)"
  shows "abs_mv (spec_S M) = n"
    and "matrixToRotor M = Inr (map_mv Num (MV (w / n) 0 0 0 (p / n) (q / n) (r / n) 0))"
proof -
  show n: "abs_mv (spec_S M) = n"
    by (simp add: assms(1) spec_S_3x3 abs_mv_sumsq n_def w_def p_def q_def r_def)
  have "shape3 M" by (simp add: assms(1) shape3_def)
  then have "matrixToRotor M = Inr (truediv (spec_S M) (abs_mv (spec_S M)))"
    by (simp add: matrixToRotor_3x3 spec_matrixToRotor_def abs_mv_def)
  also have "truediv (spec_S M) (abs_mv (spec_S M))
      = map_mv Num (MV (w / n) 0 0 0 (p / n) (q / n) (r / n) 0)"
    using assms(2) unfolding n
    by (simp add: assms(1) spec_S_3x3 truediv_def np_div_def w_def p_def q_def r_def)
  finally show "matrixToRotor M = Inr (map_mv Num (MV (w / n) 0 0 0 (p / n) (q / n) (r / n) 0))" .
qed

text \<open>
  C10. For every proper rotation matrix whose sum \<open>S\<close> has a magnitude other than zero,
  the rotor that \<open>matrixToRotor\<close> returns has the scalar part
  \<open>(1 + trace M) / |S|\<close>, which is not negative.
\<close>

theorem C10_scalar_part_nonnegative:
  assumes "proper_rotation M" and "abs_mv (spec_S M) \<noteq> 0"
  shows "\<exists>R. matrixToRotor M = Inr (map_mv Num R) \<and>
             sc R = (1 + trace3 M) / abs_mv (spec_S M) \<and> 0 \<le> sc R"
proof -
  from assms(1) obtain a b c d e f g h i :: real
    where M: "M = [[a, b, c], [d, e, f], [g, h, i]]"
      and o: "a*a + d*d + g*g = 1" "b*b + e*e + h*h = 1" "a*b + d*e + g*h = 0"
      and x: "c = d * h - g * e" "f = g * b - a * h" "i = a * e - d * b"
    by (rule proper_rotationE)
  define w p q r where "w = 1 + (a + e + i)" and "p = d - b" and "q = g - c" and "r = h - f"
  define n where "n = sqrt (w\<^sup>2 + p\<^sup>2 + q\<^sup>2 + r\<^sup>2)"
  note R = rotor_of_matrix [OF M assms(2), folded w_def p_def q_def r_def, folded n_def]
  have "w\<^sup>2 + p\<^sup>2 + q\<^sup>2 + r\<^sup>2 = 4 * w"
    unfolding w_def p_def q_def r_def by (rule rotation_identities(1) [OF o x])
  then have "0 \<le> 4 * w"
    by (metis zero_le_power2 add_nonneg_nonneg)
  then have w: "0 \<le> w" by simp
  have n: "0 \<le> n" by (simp add: n_def)
  have t: "1 + trace3 M = w" by (simp add: trace3_def M w_def)
  from w n have "0 \<le> w / n" by simp
  with R t show ?thesis
    by (intro exI [of _ "MV (w / n) 0 0 0 (p / n) (q / n) (r / n) 0"]) simp
qed

theorem C10_scalar_part_nonnegative_witness:
  "proper_rotation [[0, 0, 1], [1, 0, 0], [0, 1, 0]] \<and>
   abs_mv (spec_S [[0, 0, 1], [1, 0, 0], [0, 1, 0]]) \<noteq> 0 \<and>
   (\<exists>R. matrixToRotor [[0, 0, 1], [1, 0, 0], [0, 1, 0]] = Inr (map_mv Num R) \<and>
        sc R = 1 / 2 \<and> 0 \<le> sc R)"
proof -
  have p: "proper_rotation [[0, 0, 1], [1, 0, 0], [0, 1, 0]]"
    by (simp add: proper_rotation_def shape3_def orthogonal3_def col_dot_def det3_def)
  have s: "abs_mv (spec_S [[0, 0, 1], [1, 0, 0], [0, 1, 0]]) = 2"
    by (simp add: spec_S_3x3 abs_mv_sumsq sqrt_4)
  then have z: "abs_mv (spec_S [[0, 0, 1], [1, 0, 0], [0, 1, 0]]) \<noteq> 0"
    by simp
  have t: "trace3 [[0, 0, 1], [1, 0, 0], [0, 1, 0]] = 0"
    by (simp add: trace3_def)
  from C10_scalar_part_nonnegative [OF p z] p z show ?thesis
    unfolding s t by simp
qed

subsection \<open>Round trip\<close>

lemma rotateFrame_canonical:
  "rotateFrame (MV w 0 0 0 p q r 0) [e1, e2, e3] = Inr
     [MV 0 (w\<^sup>2 - p\<^sup>2 - q\<^sup>2 + r\<^sup>2) (2 * (- (w * p) - q * r)) (2 * (p * r - w * q)) 0 0 0 0,
      MV 0 (2 * (w * p - q * r)) (w\<^sup>2 - p\<^sup>2 + q\<^sup>2 - r\<^sup>2) (2 * (- (w * r) - p * q)) 0 0 0 0,
      MV 0 (2 * (w * q + p * r)) (2 * (w * r - p * q)) (w\<^sup>2 + p\<^sup>2 - q\<^sup>2 - r\<^sup>2) 0 0 0 0]"
  unfolding rotateFrame_def e1_def e2_def e3_def list.map conjugate_coeffs by simp

lemma frameToMatrix_canonical:
  "frameToMatrix [e1, e2, e3]
     [MV 0 x0 y0 z0 0 0 0 0, MV 0 x1 y1 z1 0 0 0 0, MV 0 x2 y2 z2 0 0 0 0]
   = Inr [[x0, y0, z0], [x1, y1, z1], [x2, y2, z2]]"
  by (simp add: frameToMatrix_def ip_def float_mv_def bind_r_def reshape33_def
      e1_def e2_def e3_def)

text \<open>
  C4. Round trip: for every proper rotation matrix \<open>M\<close> outside the singularity (the
  magnitude of \<open>S\<close> is not zero), \<open>matrixToRotor\<close> returns a rotor with finite
  coefficients, and rotating the canonical frame by that rotor with \<open>rotateFrame\<close> and
  taking the entries with \<open>frameToMatrix\<close> gives \<open>M\<close> back (exactly so over the reals).
\<close>

theorem C4_round_trip:
  assumes "proper_rotation M" and "abs_mv (spec_S M) \<noteq> 0"
  shows "\<exists>R B. matrixToRotor M = Inr (map_mv Num R) \<and>
               rotateFrame R [e1, e2, e3] = Inr B \<and>
               frameToMatrix [e1, e2, e3] B = Inr M"
proof -
  from assms(1) obtain a b c d e f g h i :: real
    where M: "M = [[a, b, c], [d, e, f], [g, h, i]]"
      and o: "a*a + d*d + g*g = 1" "b*b + e*e + h*h = 1" "a*b + d*e + g*h = 0"
      and x: "c = d * h - g * e" "f = g * b - a * h" "i = a * e - d * b"
    by (rule proper_rotationE)
  define w p q r where "w = 1 + (a + e + i)" and "p = d - b" and "q = g - c" and "r = h - f"
  define n where "n = sqrt (w\<^sup>2 + p\<^sup>2 + q\<^sup>2 + r\<^sup>2)"
  note R = rotor_of_matrix [OF M assms(2), folded w_def p_def q_def r_def, folded n_def]
  note ids = rotation_identities [OF o x, folded w_def p_def q_def r_def]
  from R(1) assms(2) have n0: "n \<noteq> 0" by simp
  have "n * n = w\<^sup>2 + p\<^sup>2 + q\<^sup>2 + r\<^sup>2"
    unfolding n_def by (simp add: add_nonneg_nonneg)
  with ids(1) have nn: "n * n = 4 * w" by simp
  with n0 have w0: "w \<noteq> 0" by auto
  have k: "(u / n) * (v / n) = u * v / (4 * w)" for u v
    by (simp add: nn)
  have k2: "(u / n)\<^sup>2 = u\<^sup>2 / (4 * w)" for u
    unfolding power2_eq_square by (rule k)
  have m: "x = 4 * w * y \<Longrightarrow> x / (4 * w) = y" for x y
    using w0 by simp
  have d2: "x / (4 * w) - y / (4 * w) = (x - y) / (4 * w)"
      "x / (4 * w) + y / (4 * w) = (x + y) / (4 * w)"
      "- (x / (4 * w)) = (- x) / (4 * w)"
      "2 * (x / (4 * w)) = (2 * x) / (4 * w)" for x y
    by (simp_all add: diff_divide_distrib add_divide_distrib)
  have e11: "(w / n)\<^sup>2 - (p / n)\<^sup>2 - (q / n)\<^sup>2 + (r / n)\<^sup>2 = a"
    unfolding k2 d2 by (rule m [OF ids(2)])
  have e22: "(w / n)\<^sup>2 - (p / n)\<^sup>2 + (q / n)\<^sup>2 - (r / n)\<^sup>2 = e"
    unfolding k2 d2 by (rule m [OF ids(6)])
  have e33: "(w / n)\<^sup>2 + (p / n)\<^sup>2 - (q / n)\<^sup>2 - (r / n)\<^sup>2 = i"
    unfolding k2 d2 by (rule m [OF ids(10)])
  have e12: "2 * (- (w / n * (p / n)) - q / n * (r / n)) = b"
    unfolding k d2 by (rule m [OF ids(3)])
  have e13: "2 * (p / n * (r / n) - w / n * (q / n)) = c"
    unfolding k d2 by (rule m [OF ids(4)])
  have e21: "2 * (w / n * (p / n) - q / n * (r / n)) = d"
    unfolding k d2 by (rule m [OF ids(5)])
  have e23: "2 * (- (w / n * (r / n)) - p / n * (q / n)) = f"
    unfolding k d2 by (rule m [OF ids(7)])
  have e31: "2 * (w / n * (q / n) + p / n * (r / n)) = g"
    unfolding k d2 by (rule m [OF ids(8)])
  have e32: "2 * (w / n * (r / n) - p / n * (q / n)) = h"
    unfolding k d2 by (rule m [OF ids(9)])
  have "rotateFrame (MV (w / n) 0 0 0 (p / n) (q / n) (r / n) 0) [e1, e2, e3]
        = Inr [MV 0 a b c 0 0 0 0, MV 0 d e f 0 0 0 0, MV 0 g h i 0 0 0 0]"
    unfolding rotateFrame_canonical e11 e12 e13 e21 e22 e23 e31 e32 e33 ..
  moreover have "frameToMatrix [e1, e2, e3]
        [MV 0 a b c 0 0 0 0, MV 0 d e f 0 0 0 0, MV 0 g h i 0 0 0 0] = Inr M"
    unfolding frameToMatrix_canonical M ..
  ultimately show ?thesis
    using R(2) by blast
qed

theorem C4_round_trip_witness:
  "proper_rotation [[3 / 5, - (4 / 5), 0], [4 / 5, 3 / 5, 0], [0, 0, 1]] \<and>
   abs_mv (spec_S [[3 / 5, - (4 / 5), 0], [4 / 5, 3 / 5, 0], [0, 0, 1]]) \<noteq> 0 \<and>
   (\<exists>R B. matrixToRotor [[3 / 5, - (4 / 5), 0], [4 / 5, 3 / 5, 0], [0, 0, 1]]
             = Inr (map_mv Num R) \<and>
          rotateFrame R [e1, e2, e3] = Inr B \<and>
          frameToMatrix [e1, e2, e3] B
             = Inr [[3 / 5, - (4 / 5), 0], [4 / 5, 3 / 5, 0], [0, 0, 1]])"
proof -
  have p: "proper_rotation [[3 / 5, - (4 / 5), 0], [4 / 5, 3 / 5, 0], [0, 0, 1]]"
    by (simp add: proper_rotation_def shape3_def orthogonal3_def col_dot_def det3_def)
  have z: "abs_mv (spec_S [[3 / 5, - (4 / 5), 0], [4 / 5, 3 / 5, 0], [0, 0, 1]]) \<noteq> 0"
    by (simp add: spec_S_3x3 abs_mv_sumsq)
  from C4_round_trip [OF p z] p z show ?thesis by blast
qed

end
